theory Spec2Isabelle
  imports Main
begin

section \<open>JavaScript values\<close>

text \<open>
  The values that flow through the accessors of nsdal.  \<open>JDate\<close> stands for a native date
  or a moment instance (an instant), \<open>JNaN\<close> for the number NaN, \<open>JFun m\<close> for the method
  \<open>m\<close> of the record handle bound to the handle (\<open>theRecord[m].bind(theRecord)\<close>),
  \<open>JNative\<close> for a function of nsdal itself (\<open>save\<close>, \<open>withSublist\<close>) and \<open>JField t\<close> for a
  field metadata object whose \<open>type\<close> property is \<open>t\<close>.
\<close>

datatype jsval =
    Undefined
  | Null
  | JBool bool
  | JNum int
  | JStr string
  | JArr "jsval list"
  | JDate int
  | JNaN
  | JFun string
  | JNative string
  | JField string

text \<open>The truthiness test of \<open>value ? a : b\<close>.\<close>

fun truthy :: "jsval \<Rightarrow> bool" where
  "truthy Undefined = False"
| "truthy Null = False"
| "truthy (JBool b) = b"
| "truthy (JNum n) = (n \<noteq> 0)"
| "truthy (JStr s) = (s \<noteq> [])"
| "truthy (JArr xs) = True"
| "truthy (JDate t) = True"
| "truthy JNaN = False"
| "truthy (JFun f) = True"
| "truthy (JNative f) = True"
| "truthy (JField t) = True"

section \<open>The four property descriptors\<close>

text \<open>
  A descriptor is the get/set pair handed to \<open>Object.defineProperty\<close>; the state \<open>'s\<close> is
  whatever the bound getter reads and the bound setter writes.
\<close>

record 's descriptor =
  dget :: "'s \<Rightarrow> jsval"
  dset :: "jsval \<Rightarrow> 's \<Rightarrow> 's"
  enumerable :: bool

text \<open>
  The date functions of the platform and of the moment library are external to this
  repository and are taken as parameters: \<open>nlapiStringToDate(value, fieldType)\<close>,
  \<open>nlapiDateToString(date, fieldType)\<close>, \<open>moment(value)\<close> and \<open>.toDate()\<close>.  So are two
  corners of the language's arithmetic on numbers: what \<open>parseInt\<close> answers (an integer, or
  nothing for NaN) for a value that is not an integer below \<open>10^21\<close> in size, and what
  \<open>x + 1\<close> answers for an integer \<open>x\<close> outside the range where the sum is exact.
\<close>

record platform =
  nlapiStringToDate :: "jsval \<Rightarrow> string \<Rightarrow> jsval"
  nlapiDateToString :: "jsval \<Rightarrow> string \<Rightarrow> jsval"
  moment :: "jsval \<Rightarrow> jsval"
  toDate :: "jsval \<Rightarrow> jsval"
  parseIntOther :: "jsval \<Rightarrow> int option"
  plusOneOther :: "int \<Rightarrow> int"

definition dateTimeDescriptor ::
  "platform \<Rightarrow> string \<Rightarrow> ('s \<Rightarrow> jsval) \<Rightarrow> (jsval \<Rightarrow> 's \<Rightarrow> 's) \<Rightarrow> 's descriptor" where
  "dateTimeDescriptor L fieldType getter setter =
     \<lparr> dget = (\<lambda>s. let value = getter s in
                  if truthy value then moment L (nlapiStringToDate L value fieldType) else value),
       dset = (\<lambda>value s.
                  if value \<noteq> Undefined
                  then setter (if truthy value
                               then nlapiDateToString L (toDate L (moment L value)) fieldType
                               else Null) s
                  else s),
       enumerable = True \<rparr>"

definition multiSelectDescriptor ::
  "('s \<Rightarrow> jsval) \<Rightarrow> (jsval \<Rightarrow> 's \<Rightarrow> 's) \<Rightarrow> 's descriptor" where
  "multiSelectDescriptor getter setter =
     \<lparr> dget = (\<lambda>s. let values = getter s in if truthy values then values else JArr []),
       dset = (\<lambda>value s. if value \<noteq> Undefined then setter value s else s),
       enumerable = True \<rparr>"

definition checkboxDescriptor ::
  "('s \<Rightarrow> jsval) \<Rightarrow> (jsval \<Rightarrow> 's \<Rightarrow> 's) \<Rightarrow> 's descriptor" where
  "checkboxDescriptor getter setter =
     \<lparr> dget = (\<lambda>s. JBool (getter s = JStr ''T'')),
       dset = (\<lambda>value s.
                  if value \<noteq> Undefined
                  then setter (if value = JBool True then JStr ''T'' else JStr ''F'') s
                  else s),
       enumerable = True \<rparr>"

definition defaultDescriptor ::
  "('s \<Rightarrow> jsval) \<Rightarrow> (jsval \<Rightarrow> 's \<Rightarrow> 's) \<Rightarrow> 's descriptor" where
  "defaultDescriptor getter setter =
     \<lparr> dget = (\<lambda>s. getter s),
       dset = (\<lambda>value s. if value \<noteq> Undefined then setter value s else s),
       enumerable = True \<rparr>"

text \<open>The four converters, named, so that a statement can range over all of them.\<close>

datatype converter = DateTime string | MultiSelect | Checkbox | DefaultDesc

fun converterDescriptor ::
  "platform \<Rightarrow> converter \<Rightarrow> ('s \<Rightarrow> jsval) \<Rightarrow> (jsval \<Rightarrow> 's \<Rightarrow> 's) \<Rightarrow> 's descriptor" where
  "converterDescriptor L (DateTime fieldType) g s = dateTimeDescriptor L fieldType g s"
| "converterDescriptor L MultiSelect g s = multiSelectDescriptor g s"
| "converterDescriptor L Checkbox g s = checkboxDescriptor g s"
| "converterDescriptor L DefaultDesc g s = defaultDescriptor g s"

subsection \<open>A store that echoes what was set and records every setter call\<close>

record cell =
  stored :: jsval
  setterCalls :: "jsval list"

definition cellGetter :: "cell \<Rightarrow> jsval" where
  "cellGetter c = stored c"

definition cellSetter :: "jsval \<Rightarrow> cell \<Rightarrow> cell" where
  "cellSetter v c = \<lparr> stored = v, setterCalls = setterCalls c @ [v] \<rparr>"

definition onCell :: "platform \<Rightarrow> converter \<Rightarrow> cell descriptor" where
  "onCell L k = converterDescriptor L k cellGetter cellSetter"

text \<open>A date library with distinguishable results, for concrete evaluation.\<close>

definition sampleLib :: platform where
  "sampleLib = \<lparr> nlapiStringToDate = (\<lambda>v t. JDate 1),
                  nlapiDateToString = (\<lambda>v t. JStr (''1/1/2020:'' @ t)),
                  moment = (\<lambda>v. case v of JDate n \<Rightarrow> JDate n | _ \<Rightarrow> JDate 0),
                  toDate = (\<lambda>v. v),
                  parseIntOther = (\<lambda>v. None),
                  plusOneOther = (\<lambda>n. n) \<rparr>"

section \<open>The record handle\<close>

datatype error = TypeError | RemoteError string

datatype level = LDebug | LInfo | LError

text \<open>A logged string is kept as the pieces that were concatenated.\<close>

datatype logPart = S string | V jsval

type_synonym logEntry = "level \<times> logPart list \<times> logPart list"

text \<open>
  The record handle (nlobjRecord) belongs to the platform, not to this repository.  It is
  modelled as a store: the names of the methods the handle object has, what \<open>getField\<close>
  and \<open>getLineItemField\<close> answer (an error raised by the platform, nothing, or a field
  object), the body values, the line-item values and the line counts.
\<close>

record nlobjRecord =
  methods :: "string list"
  getFieldR :: "string \<Rightarrow> error + jsval"
  getLineItemFieldR :: "string \<Rightarrow> string \<Rightarrow> error + jsval"
  fieldValue :: "string \<Rightarrow> jsval"
  fieldValues :: "string \<Rightarrow> jsval"
  lineItemValue :: "string \<Rightarrow> string \<Rightarrow> int \<Rightarrow> jsval"
  lineItemCount :: "string \<Rightarrow> int"

text \<open>
  What a call of the handle's method \<open>m\<close> with arguments \<open>args\<close> answers and does to the
  store.  \<open>insertLineItem\<close> opens a blank line at the position and moves the later lines
  up by one.  Methods this file never calls answer \<open>undefined\<close> and change nothing.
\<close>

definition handleCall ::
  "string \<Rightarrow> jsval list \<Rightarrow> nlobjRecord \<Rightarrow> (error + jsval) \<times> nlobjRecord" where
  "handleCall m args h =
     (case args of
        [JStr a] \<Rightarrow>
          if m = ''getField'' then (getFieldR h a, h)
          else if m = ''getFieldValue'' then (Inr (fieldValue h a), h)
          else if m = ''getFieldValues'' then (Inr (fieldValues h a), h)
          else if m = ''getLineItemCount'' then (Inr (JNum (lineItemCount h a)), h)
          else (Inr Undefined, h)
      | [JStr a, JStr b] \<Rightarrow>
          if m = ''getLineItemField'' then (getLineItemFieldR h a b, h)
          else if m = ''setFieldValue'' then (Inr Undefined, h\<lparr>fieldValue := (fieldValue h)(a := JStr b)\<rparr>)
          else if m = ''setFieldValues'' then (Inr Undefined, h\<lparr>fieldValues := (fieldValues h)(a := JStr b)\<rparr>)
          else (Inr Undefined, h)
      | [JStr a, v] \<Rightarrow>
          if m = ''setFieldValue'' then (Inr Undefined, h\<lparr>fieldValue := (fieldValue h)(a := v)\<rparr>)
          else if m = ''setFieldValues'' then (Inr Undefined, h\<lparr>fieldValues := (fieldValues h)(a := v)\<rparr>)
          else if m = ''insertLineItem'' then
            (case v of
               JNum p \<Rightarrow>
                 (Inr Undefined,
                  h\<lparr>lineItemCount := (lineItemCount h)(a := lineItemCount h a + 1),
                    lineItemValue := (lineItemValue h)
                      (a := (\<lambda>f n. if n < p then lineItemValue h a f n
                                    else if n = p then Null
                                    else lineItemValue h a f (n - 1)))\<rparr>)
             | _ \<Rightarrow> (Inr Undefined, h))
          else (Inr Undefined, h)
      | [JStr a, JStr b, JNum n] \<Rightarrow>
          if m = ''getLineItemValue'' then (Inr (lineItemValue h a b n), h)
          else (Inr Undefined, h)
      | [JStr a, JStr b, JNum n, v] \<Rightarrow>
          if m = ''setLineItemValue''
          then (Inr Undefined,
                h\<lparr>lineItemValue := (lineItemValue h)(a := (lineItemValue h a)(b := (lineItemValue h a b)(n := v)))\<rparr>)
          else (Inr Undefined, h)
      | _ \<Rightarrow> (Inr Undefined, h))"

text \<open>\<open>theRecord.m(args)\<close>: a TypeError when the handle has no method \<open>m\<close>.\<close>

definition callHandleMethod ::
  "nlobjRecord \<Rightarrow> string \<Rightarrow> jsval list \<Rightarrow> (error + jsval) \<times> nlobjRecord" where
  "callHandleMethod h m args =
     (if m \<in> set (methods h) then handleCall m args h else (Inl TypeError, h))"

section \<open>Bound accessors\<close>

text \<open>
  \<open>f.bind(thisArg, a1, ..., an)\<close>: the function value and the arguments bound in front.
  A bound getter is called with no further argument, a bound setter with the value.
  A bound function of nsdal itself (\<open>JNative\<close>) is not interpreted.
\<close>

datatype bound = Bound jsval "jsval list"

fun callGetter :: "bound \<Rightarrow> nlobjRecord \<Rightarrow> jsval" where
  "callGetter (Bound (JFun m) args) h =
     (case fst (handleCall m args h) of Inr v \<Rightarrow> v | Inl e \<Rightarrow> Undefined)"
| "callGetter (Bound f args) h = Undefined"

fun callSetter :: "bound \<Rightarrow> jsval \<Rightarrow> nlobjRecord \<Rightarrow> nlobjRecord" where
  "callSetter (Bound (JFun m) args) v h = snd (handleCall m (args @ [v]) h)"
| "callSetter (Bound f args) v h = h"

record accessor =
  conv :: converter
  getterB :: bound
  setterB :: bound

definition accessorDescriptor :: "platform \<Rightarrow> accessor \<Rightarrow> nlobjRecord descriptor" where
  "accessorDescriptor L a =
     converterDescriptor L (conv a) (callGetter (getterB a)) (callSetter (setterB a))"

text \<open>\<open>theRecord.m.bind(theRecord, args)\<close>: a TypeError when the handle has no \<open>m\<close>.\<close>

definition bindMethod :: "nlobjRecord \<Rightarrow> string \<Rightarrow> jsval list \<Rightarrow> error + bound" where
  "bindMethod h m args = (if m \<in> set (methods h) then Inr (Bound (JFun m) args) else Inl TypeError)"

text \<open>
  A converter over two bound handle methods; the getter is bound first, then the setter,
  and the first failure is the one raised.
\<close>

definition boundDescriptor ::
  "converter \<Rightarrow> error + bound \<Rightarrow> error + bound \<Rightarrow> error + accessor" where
  "boundDescriptor k g s =
     (case g of
        Inl e \<Rightarrow> Inl e
      | Inr gb \<Rightarrow> (case s of
                    Inl e \<Rightarrow> Inl e
                  | Inr sb \<Rightarrow> Inr \<lparr> conv = k, getterB = gb, setterB = sb \<rparr>))"

section \<open>Objects and property definition\<close>

text \<open>
  A row of a sublist is a fresh object that only ever receives properties through
  \<open>Object.defineProperty\<close> with the attributes left at their defaults, so each of its
  properties is non-configurable: an accessor, or a plain property holding \<open>undefined\<close>.
\<close>

datatype rowslot = RowAccessor accessor | RowPlain

type_synonym row = "string \<Rightarrow> rowslot option"

text \<open>
  What an own property of an adapted record holds: a value, the record handle, or the
  array of a sublist (its rows, and the field names \<open>withSublist\<close> was given).
\<close>

datatype pvalue = PVal jsval | PHandle | PList "row list" "string list"

text \<open>
  An own property: an accessor with its \<open>configurable\<close> attribute, or a data property with
  its value and its \<open>writable\<close> and \<open>configurable\<close> attributes.
\<close>

datatype slot = AccessorProp accessor bool | DataProp pvalue bool bool

type_synonym nsobj = "string \<Rightarrow> slot option"

record world =
  handle :: nlobjRecord
  logs :: "logEntry list"

text \<open>
  What the entry of a descriptor table answers when called: a descriptor, an object with
  none of the descriptor fields (\<open>Object(name)\<close>), or a primitive.
\<close>

datatype produced = Desc accessor | Wrapper | Primitive

text \<open>
  \<open>Object.defineProperty(obj, name, d)\<close> for what a descriptor table produced.  A primitive
  is not a property description (TypeError).  An object without descriptor fields adds a
  plain non-configurable property when the name is new and changes nothing otherwise.  A
  get/set descriptor is accepted when the name is new or the present property is
  configurable; the getter and setter are fresh closures, so a non-configurable property
  is never redefined with them.
\<close>

definition defineProperty :: "nsobj \<Rightarrow> string \<Rightarrow> produced \<Rightarrow> error + nsobj" where
  "defineProperty obj name d =
     (case d of
        Primitive \<Rightarrow> Inl TypeError
      | Wrapper \<Rightarrow>
          (case obj name of
             None \<Rightarrow> Inr (obj(name \<mapsto> DataProp (PVal Undefined) False False))
           | Some x \<Rightarrow> Inr obj)
      | Desc a \<Rightarrow>
          (case obj name of
             None \<Rightarrow> Inr (obj(name \<mapsto> AccessorProp a False))
           | Some (AccessorProp b c) \<Rightarrow>
               if c then Inr (obj(name \<mapsto> AccessorProp a True)) else Inl TypeError
           | Some (DataProp v w c) \<Rightarrow>
               if c then Inr (obj(name \<mapsto> AccessorProp a True)) else Inl TypeError))"

definition defineRowProperty :: "row \<Rightarrow> string \<Rightarrow> produced \<Rightarrow> error + row" where
  "defineRowProperty r name d =
     (case d of
        Primitive \<Rightarrow> Inl TypeError
      | Wrapper \<Rightarrow>
          (case r name of None \<Rightarrow> Inr (r(name \<mapsto> RowPlain)) | Some x \<Rightarrow> Inr r)
      | Desc a \<Rightarrow>
          (case r name of None \<Rightarrow> Inr (r(name \<mapsto> RowAccessor a)) | Some x \<Rightarrow> Inl TypeError))"

text \<open>
  \<open>Object.defineProperty(obj, name, {value: v, writable: false, ...})\<close> with a value that
  is a fresh object or the handle; \<open>cfg\<close> is the \<open>configurable\<close> attribute when the
  description gives one.  A configurable property is replaced and keeps its
  \<open>configurable\<close> attribute unless the description sets it.  A non-configurable accessor,
  or a non-configurable read-only data property with another value, rejects the
  definition.
\<close>

definition defineValue :: "nsobj \<Rightarrow> string \<Rightarrow> pvalue \<Rightarrow> bool option \<Rightarrow> error + nsobj" where
  "defineValue obj name v cfg =
     (case obj name of
        None \<Rightarrow> Inr (obj(name \<mapsto> DataProp v False (case cfg of Some c \<Rightarrow> c | None \<Rightarrow> False)))
      | Some (AccessorProp b c) \<Rightarrow>
          if c then Inr (obj(name \<mapsto> DataProp v False (case cfg of Some c' \<Rightarrow> c' | None \<Rightarrow> True)))
          else Inl TypeError
      | Some (DataProp u w c) \<Rightarrow>
          if c then Inr (obj(name \<mapsto> DataProp v False (case cfg of Some c' \<Rightarrow> c' | None \<Rightarrow> True)))
          else if cfg = Some True then Inl TypeError
          else if w then Inr (obj(name \<mapsto> DataProp v False False))
          else if u = PHandle \<and> v = PHandle then Inr obj
          else Inl TypeError)"

text \<open>
  \<open>obj[name] = v\<close> in non-strict code: a new name becomes a writable, configurable data
  property; an accessor runs its setter on the handle; a read-only data property is left
  as it is.
\<close>

definition assign :: "platform \<Rightarrow> nsobj \<Rightarrow> string \<Rightarrow> jsval \<Rightarrow> world \<Rightarrow> nsobj \<times> world" where
  "assign L obj name v w =
     (case obj name of
        None \<Rightarrow> (obj(name \<mapsto> DataProp (PVal v) True True), w)
      | Some (AccessorProp a c) \<Rightarrow> (obj, w\<lparr>handle := dset (accessorDescriptor L a) v (handle w)\<rparr>)
      | Some (DataProp u wr c) \<Rightarrow>
          if wr then (obj(name \<mapsto> DataProp (PVal v) True c), w) else (obj, w))"

text \<open>
  \<open>obj[name]\<close> for the method names this file reads from an adapted record (none of them
  is a property of \<open>Object.prototype\<close>): an accessor runs its getter.
\<close>

definition objRead :: "platform \<Rightarrow> nsobj \<Rightarrow> string \<Rightarrow> nlobjRecord \<Rightarrow> pvalue" where
  "objRead L obj name h =
     (case obj name of
        None \<Rightarrow> PVal Undefined
      | Some (AccessorProp a c) \<Rightarrow> PVal (dget (accessorDescriptor L a) h)
      | Some (DataProp p wr c) \<Rightarrow> p)"

text \<open>\<open>f.bind(recordObj, args)\<close> for a value read from an object: only functions have \<open>bind\<close>.\<close>

definition bindOn :: "pvalue \<Rightarrow> jsval list \<Rightarrow> error + bound" where
  "bindOn p args =
     (case p of
        PVal (JFun m) \<Rightarrow> Inr (Bound (JFun m) args)
      | PVal (JNative n) \<Rightarrow> Inr (Bound (JNative n) args)
      | _ \<Rightarrow> Inl TypeError)"

text \<open>
  \<open>f(args)\<close> for a value read from an object: a bound handle method runs on the handle, a
  function of nsdal is not interpreted, anything else is not callable.
\<close>

definition callValue :: "pvalue \<Rightarrow> jsval list \<Rightarrow> nlobjRecord \<Rightarrow> (error + jsval) \<times> nlobjRecord" where
  "callValue p args h =
     (case p of
        PVal (JFun m) \<Rightarrow> handleCall m args h
      | PVal (JNative n) \<Rightarrow> (Inr Undefined, h)
      | _ \<Rightarrow> (Inl TypeError, h))"

section \<open>Descriptor tables\<close>

text \<open>
  \<open>bodyFieldDescriptors\<close> and \<open>sublistFieldDescriptors\<close> are object literals, so besides
  their six own entries a lookup by type name also finds the properties they inherit from
  \<open>Object.prototype\<close>.
\<close>

definition objectPrototypeNames :: "string list" where
  "objectPrototypeNames =
     [''constructor'', ''toString'', ''toLocaleString'', ''valueOf'', ''hasOwnProperty'',
      ''isPrototypeOf'', ''propertyIsEnumerable'', ''__proto__'', ''__defineGetter__'',
      ''__defineSetter__'', ''__lookupGetter__'', ''__lookupSetter__'']"

text \<open>
  An inherited entry called with the field name, no receiver: \<open>constructor\<close> (that is,
  \<open>Object\<close>) wraps the name in an object, \<open>toString\<close> and \<open>isPrototypeOf\<close> answer a
  primitive, and the others raise a TypeError (no object to work on, or not a function).
\<close>

definition callInherited :: "string \<Rightarrow> error + produced" where
  "callInherited t =
     (if t = ''constructor'' then Inr Wrapper
      else if t = ''toString'' \<or> t = ''isPrototypeOf'' then Inr Primitive
      else Inl TypeError)"

definition asDesc :: "error + accessor \<Rightarrow> error + produced" where
  "asDesc r = (case r of Inl e \<Rightarrow> Inl e | Inr a \<Rightarrow> Inr (Desc a))"

text \<open>The own entries of \<open>bodyFieldDescriptors\<close>, applied to a field name.\<close>

definition dateHandler :: "nlobjRecord \<Rightarrow> string \<Rightarrow> string \<Rightarrow> error + accessor" where
  "dateHandler h fieldType fieldname =
     boundDescriptor (DateTime fieldType)
       (bindMethod h ''getFieldValue'' [JStr fieldname])
       (bindMethod h ''setFieldValue'' [JStr fieldname])"

definition bodyFieldDescriptors ::
  "nlobjRecord \<Rightarrow> string \<Rightarrow> (string \<Rightarrow> error + accessor) option" where
  "bodyFieldDescriptors h t =
     (if t = ''date'' then Some (dateHandler h ''date'')
      else if t = ''datetime'' then Some (dateHandler h ''datetime'')
      else if t = ''datetimetz'' then Some (dateHandler h ''datetimetz'')
      else if t = ''multiselect'' then
        Some (\<lambda>fieldname. boundDescriptor MultiSelect
                (bindMethod h ''getFieldValues'' [JStr fieldname])
                (bindMethod h ''setFieldValues'' [JStr fieldname]))
      else if t = ''checkbox'' then
        Some (\<lambda>fieldname. boundDescriptor Checkbox
                (bindMethod h ''getFieldValue'' [JStr fieldname])
                (bindMethod h ''setFieldValue'' [JStr fieldname]))
      else if t = ''defaultDesc'' then
        Some (\<lambda>fieldname. boundDescriptor DefaultDesc
                (bindMethod h ''getFieldValue'' [JStr fieldname])
                (bindMethod h ''setFieldValue'' [JStr fieldname]))
      else None)"

text \<open>
  \<open>(bodyFieldDescriptors[fieldType] || bodyFieldDescriptors["defaultDesc"])(name)\<close>.
\<close>

definition bodyDescriptorFor :: "nlobjRecord \<Rightarrow> string \<Rightarrow> string \<Rightarrow> error + produced" where
  "bodyDescriptorFor h fieldType name =
     (case bodyFieldDescriptors h fieldType of
        Some f \<Rightarrow> asDesc (f name)
      | None \<Rightarrow>
          if fieldType \<in> set objectPrototypeNames then callInherited fieldType
          else (case bodyFieldDescriptors h ''defaultDesc'' of
                  Some f \<Rightarrow> asDesc (f name)
                | None \<Rightarrow> Inl TypeError))"

text \<open>
  \<open>x.type\<close> used as a property key: the type of a field object, and \<open>undefined\<close> (the key
  \<open>"undefined"\<close>) for any other value that has properties.
\<close>

fun typeKey :: "jsval \<Rightarrow> string" where
  "typeKey (JField t) = t"
| "typeKey v = ''undefined''"

section \<open>addFieldProperties\<close>

text \<open>The body of the \<open>try\<close> block, for one field name.\<close>

definition fieldStep :: "bool \<Rightarrow> nlobjRecord \<Rightarrow> nsobj \<Rightarrow> string \<Rightarrow> error + nsobj" where
  "fieldStep isClientScript h obj name =
     (case (if \<not> isClientScript then fst (callHandleMethod h ''getField'' [JStr name])
            else Inr Undefined) of
        Inl e \<Rightarrow> Inl e
      | Inr field \<Rightarrow>
          (let fieldType = (if truthy field then typeKey field else ''defaultDesc'') in
           case bodyDescriptorFor h fieldType name of
             Inl e \<Rightarrow> Inl e
           | Inr d \<Rightarrow> defineProperty obj name d))"

text \<open>
  \<open>propNames.forEach\<close> with its \<open>catch\<close>: a TypeError is logged at error level, with the
  title \<open>addFieldProperties() error\<close> and the details
  \<open>"possibly invalid field name: '" + name + "'"\<close>, and every error is thrown again.
\<close>

fun forEachField ::
  "bool \<Rightarrow> nlobjRecord \<Rightarrow> string list \<Rightarrow> nsobj \<Rightarrow> logEntry list \<Rightarrow> (error + nsobj) \<times> logEntry list" where
  "forEachField c h [] obj lg = (Inr obj, lg)"
| "forEachField c h (name # names) obj lg =
     (case fieldStep c h obj name of
        Inl e \<Rightarrow>
          (Inl e,
           if e = TypeError
           then lg @ [(LError, [S ''addFieldProperties() error''],
                       [S (''possibly invalid field name: '' @ [CHR 0x27]), S name, S [CHR 0x27]])]
           else lg)
      | Inr obj' \<Rightarrow> forEachField c h names obj' lg)"

definition addFieldProperties ::
  "platform \<Rightarrow> bool \<Rightarrow> string list \<Rightarrow> world \<Rightarrow> (error + nsobj) \<times> world" where
  "addFieldProperties L isClientScript propNames w =
     (case forEachField isClientScript (handle w) propNames Map.empty (logs w) of
        (Inl e, lg) \<Rightarrow> (Inl e, w\<lparr>logs := lg\<rparr>)
      | (Inr obj, lg) \<Rightarrow>
          (let w1 = w\<lparr>logs := lg @ [(LDebug, [S ''adding [nlobjRecord] property to nsdal object''], [])]\<rparr> in
           case defineValue obj ''nlobjRecord'' PHandle (Some False) of
             Inl e \<Rightarrow> (Inl e, w1)
           | Inr obj1 \<Rightarrow>
               (case assign L obj1 ''save'' (JNative ''save'') w1 of
                  (obj2, w2) \<Rightarrow>
                    (case assign L obj2 ''withSublist'' (JNative ''withSublist'') w2 of
                       (obj3, w3) \<Rightarrow> (Inr obj3, w3)))))"

section \<open>fromRecord\<close>

definition functionsToPassThru :: "string list" where
  "functionsToPassThru =
     [''getId'', ''getRecordType'', ''getField'', ''getSubList'', ''getMatrixField'',
      ''getLineItemField'', ''getLineItemMatrixField'', ''getLineItemMatrixValue'',
      ''setFieldValue'', ''setFieldValues'', ''getFieldValue'', ''getFieldValues'',
      ''setFieldText'', ''setFieldTexts'', ''getFieldText'', ''getFieldTexts'',
      ''getMatrixValue'', ''setMatrixValue'', ''getAllFields'', ''getAllLineItemFields'',
      ''setLineItemValue'', ''getLineItemValue'', ''getLineItemText'',
      ''setCurrentLineItemValue'', ''getCurrentLineItemValue'', ''getCurrentLineItemText'',
      ''setCurrentLineItemMatrixValue'', ''getCurrentLineItemMatrixValue'',
      ''getMatrixCount'', ''getLineItemCount'', ''findLineItemValue'',
      ''findLineItemMatrixValue'', ''insertLineItem'', ''removeLineItem'',
      ''selectNewLineItem'', ''selectLineItem'', ''viewLineItemSubrecord'',
      ''viewCurrentLineItemSubrecord'', ''createCurrentLineItemSubrecord'',
      ''editCurrentLineItemSubrecord'', ''removeCurrentLineItemSubrecord'',
      ''createSubrecord'', ''editSubrecord'', ''viewSubrecord'', ''removeSubrecord'',
      ''commitLineItem'']"

text \<open>
  The body of \<open>_.each(nsdal.functionsToPassThru, ...)\<close>: a method the handle has is bound
  to the handle and assigned to the property of the same name.
\<close>

definition passThruStep :: "platform \<Rightarrow> nsobj \<times> world \<Rightarrow> string \<Rightarrow> nsobj \<times> world" where
  "passThruStep L ow name =
     (if name \<in> set (methods (handle (snd ow)))
      then assign L (fst ow) name (JFun name) (snd ow)
      else ow)"

definition fromRecord ::
  "platform \<Rightarrow> bool \<Rightarrow> string list \<Rightarrow> world \<Rightarrow> (error + nsobj) \<times> world" where
  "fromRecord L isClientScript propNames w =
     (case addFieldProperties L isClientScript propNames w of
        (Inl e, w') \<Rightarrow> (Inl e, w')
      | (Inr obj, w') \<Rightarrow>
          (case foldl (passThruStep L) (obj, w') functionsToPassThru of
             (obj', w'') \<Rightarrow>
               (Inr obj',
                w''\<lparr>logs := logs w'' @ [(LInfo, [S ''nsdal object loaded or created successfully''], [])]\<rparr>)))"

text \<open>The adapted record exposes the handle's method \<open>m\<close>, bound to the handle, as \<open>obj[m]\<close>.\<close>

definition exposes :: "nsobj \<Rightarrow> string \<Rightarrow> bool" where
  "exposes obj m = (case obj m of Some (DataProp (PVal (JFun m')) wr c) \<Rightarrow> m' = m | _ \<Rightarrow> False)"

section \<open>withSublist\<close>

text \<open>
  \<open>parseInt(v)\<close>: an integer, or \<open>None\<close> for NaN.  The argument is first turned into a
  string; an integer below \<open>10^21\<close> in size prints as its decimal digits and parses back to
  itself, and NaN parses to NaN.
\<close>

definition parseIntJS :: "platform \<Rightarrow> jsval \<Rightarrow> int option" where
  "parseIntJS L v =
     (case v of
        JNum n \<Rightarrow> if \<bar>n\<bar> < 10 ^ 21 then Some n else parseIntOther L v
      | JNaN \<Rightarrow> None
      | _ \<Rightarrow> parseIntOther L v)"


text \<open>
  The own entries of \<open>sublistFieldDescriptors\<close>, applied to (sublist name, field name,
  line); the accessors are read from \<open>recordObj\<close>, the adapted record.
\<close>

definition sublistDateHandler ::
  "platform \<Rightarrow> nsobj \<Rightarrow> nlobjRecord \<Rightarrow> string \<Rightarrow> string \<Rightarrow> string \<Rightarrow> jsval \<Rightarrow> error + accessor" where
  "sublistDateHandler L recordObj h fieldType listname fieldname linenum =
     boundDescriptor (DateTime fieldType)
       (bindOn (objRead L recordObj ''getLineItemValue'' h) [JStr listname, JStr fieldname, linenum])
       (bindOn (objRead L recordObj ''setLineItemValue'' h) [JStr listname, JStr fieldname, linenum])"

definition sublistFieldDescriptors ::
  "platform \<Rightarrow> nsobj \<Rightarrow> nlobjRecord \<Rightarrow> string \<Rightarrow> (string \<Rightarrow> string \<Rightarrow> jsval \<Rightarrow> error + accessor) option" where
  "sublistFieldDescriptors L recordObj h t =
     (if t = ''date'' then Some (sublistDateHandler L recordObj h ''date'')
      else if t = ''datetime'' then Some (sublistDateHandler L recordObj h ''datetime'')
      else if t = ''datetimetz'' then Some (sublistDateHandler L recordObj h ''datetimetz'')
      else if t = ''multiselect'' then
        Some (\<lambda>listname fieldname line. boundDescriptor MultiSelect
                (bindOn (objRead L recordObj ''getLineItemValues'' h) [JStr fieldname, line])
                (bindOn (objRead L recordObj ''setLineItemValues'' h) [JStr fieldname, line]))
      else if t = ''checkbox'' then
        Some (\<lambda>listname fieldname line. boundDescriptor Checkbox
                (bindOn (objRead L recordObj ''getLineItemValue'' h) [JStr listname, JStr fieldname, line])
                (bindOn (objRead L recordObj ''setLineItemValue'' h) [JStr listname, JStr fieldname, line]))
      else if t = ''defaultDesc'' then
        Some (\<lambda>listname fieldname linenum. boundDescriptor DefaultDesc
                (bindOn (objRead L recordObj ''getLineItemValue'' h) [JStr listname, JStr fieldname, linenum])
                (bindOn (objRead L recordObj ''setLineItemValue'' h) [JStr listname, JStr fieldname, linenum]))
      else None)"

definition sublistDescriptorFor ::
  "platform \<Rightarrow> nsobj \<Rightarrow> nlobjRecord \<Rightarrow> string \<Rightarrow> string \<Rightarrow> string \<Rightarrow> jsval \<Rightarrow> error + produced" where
  "sublistDescriptorFor L recordObj h fieldType listname name linenum =
     (case sublistFieldDescriptors L recordObj h fieldType of
        Some f \<Rightarrow> asDesc (f listname name linenum)
      | None \<Rightarrow>
          if fieldType \<in> set objectPrototypeNames then callInherited fieldType
          else (case sublistFieldDescriptors L recordObj h ''defaultDesc'' of
                  Some f \<Rightarrow> asDesc (f listname name linenum)
                | None \<Rightarrow> Inl TypeError))"

text \<open>The body of \<open>propNames.forEach\<close> in \<open>addNewLineItem\<close>, for one field name.\<close>

definition rowFieldStep ::
  "platform \<Rightarrow> bool \<Rightarrow> nsobj \<Rightarrow> string \<Rightarrow> jsval \<Rightarrow> row \<Rightarrow> string \<Rightarrow> nlobjRecord
     \<Rightarrow> (error + row) \<times> nlobjRecord" where
  "rowFieldStep L isClientScript recordObj listname linenum newItem name h =
     (case (if \<not> isClientScript
            then callValue (objRead L recordObj ''getLineItemField'' h) [JStr listname, JStr name] h
            else (Inr Undefined, h)) of
        (Inl e, h') \<Rightarrow> (Inl e, h')
      | (Inr fieldObj, h') \<Rightarrow>
          (let fieldType = (if truthy fieldObj then typeKey fieldObj else ''unknown'') in
           case sublistDescriptorFor L recordObj h' fieldType listname name linenum of
             Inl e \<Rightarrow> (Inl e, h')
           | Inr d \<Rightarrow> (defineRowProperty newItem name d, h')))"

fun rowFields ::
  "platform \<Rightarrow> bool \<Rightarrow> nsobj \<Rightarrow> string \<Rightarrow> jsval \<Rightarrow> string list \<Rightarrow> row \<Rightarrow> nlobjRecord
     \<Rightarrow> (error + row) \<times> nlobjRecord" where
  "rowFields L c recordObj listname linenum [] newItem h = (Inr newItem, h)"
| "rowFields L c recordObj listname linenum (name # names) newItem h =
     (case rowFieldStep L c recordObj listname linenum newItem name h of
        (Inl e, h') \<Rightarrow> (Inl e, h')
      | (Inr newItem', h') \<Rightarrow> rowFields L c recordObj listname linenum names newItem' h')"

text \<open>
  \<open>list.addNewLineItem(linenum, recordObj)\<close>: the new row is pushed onto the list and
  returned; the result is the row and the list after the push.
\<close>

definition addNewLineItem ::
  "platform \<Rightarrow> bool \<Rightarrow> string \<Rightarrow> string list \<Rightarrow> row list \<Rightarrow> jsval \<Rightarrow> nsobj \<Rightarrow> nlobjRecord
     \<Rightarrow> (error + row \<times> row list) \<times> nlobjRecord" where
  "addNewLineItem L c listname propNames list linenum recordObj h =
     (case rowFields L c recordObj listname linenum propNames Map.empty h of
        (Inl e, h') \<Rightarrow> (Inl e, h')
      | (Inr newItem, h') \<Rightarrow> (Inr (newItem, list @ [newItem]), h'))"

text \<open>The loop \<open>for (i = 1; i <= numLines; i++) list.addNewLineItem(i, this)\<close>.\<close>

fun existingLines ::
  "platform \<Rightarrow> bool \<Rightarrow> string \<Rightarrow> string list \<Rightarrow> nsobj \<Rightarrow> int list \<Rightarrow> row list \<Rightarrow> nlobjRecord
     \<Rightarrow> (error + row list) \<times> nlobjRecord" where
  "existingLines L c listname propNames this [] list h = (Inr list, h)"
| "existingLines L c listname propNames this (i # is) list h =
     (case addNewLineItem L c listname propNames list (JNum i) this h of
        (Inl e, h') \<Rightarrow> (Inl e, h')
      | (Inr (newItem, list'), h') \<Rightarrow> existingLines L c listname propNames this is list' h')"

text \<open>
  The values of \<open>i\<close> the loop runs through: none when \<open>numLines\<close> is NaN.  At \<open>2^53\<close> the
  increment \<open>i++\<close> no longer changes \<open>i\<close>, so for \<open>numLines\<close> of \<open>2^53\<close> or more the loop
  never ends: \<open>None\<close>.
\<close>

definition lineNumbers :: "int option \<Rightarrow> int list option" where
  "lineNumbers numLines =
     (case numLines of
        None \<Rightarrow> Some []
      | Some n \<Rightarrow> if n < 2 ^ 53 then Some [1..n] else None)"

text \<open>The rows pushed onto the array held by the property \<open>listname\<close>.\<close>

definition setRows :: "nsobj \<Rightarrow> string \<Rightarrow> row list \<Rightarrow> nsobj" where
  "setRows obj listname rows =
     (case obj listname of
        Some (DataProp (PList old ps) wr cf) \<Rightarrow> obj(listname \<mapsto> DataProp (PList rows ps) wr cf)
      | _ \<Rightarrow> obj)"

text \<open>
  \<open>withSublist(listname, propNames)\<close> on the adapted record \<open>this\<close>.  The result is \<open>None\<close> when
  the call does not return (the loop over the lines never ends).
\<close>

definition withSublist ::
  "platform \<Rightarrow> bool \<Rightarrow> string \<Rightarrow> string list \<Rightarrow> nsobj \<Rightarrow> world
     \<Rightarrow> ((error + nsobj) \<times> world) option" where
  "withSublist L c listname propNames this w =
     (case callValue (objRead L this ''getLineItemCount'' (handle w)) [JStr listname] (handle w) of
        (Inl e, h1) \<Rightarrow> Some (Inl e, w\<lparr>handle := h1\<rparr>)
      | (Inr cnt, h1) \<Rightarrow>
          (let numLines = parseIntJS L cnt in
           case defineValue this listname (PList [] propNames) None of
             Inl e \<Rightarrow> Some (Inl e, w\<lparr>handle := h1\<rparr>)
           | Inr this1 \<Rightarrow>
               (case lineNumbers numLines of
                  None \<Rightarrow> None
                | Some lines \<Rightarrow>
                    (case existingLines L c listname propNames this1 lines [] h1 of
                       (Inl e, h2) \<Rightarrow> Some (Inl e, w\<lparr>handle := h2\<rparr>)
                     | (Inr rows, h2) \<Rightarrow>
                         Some (Inr (setRows this1 listname rows), w\<lparr>handle := h2\<rparr>)))))"


section \<open>Notions used in the statements\<close>

text \<open>The type tags that have a converter of their own.\<close>

definition recognisedTypes :: "string list" where
  "recognisedTypes = [''date'', ''datetime'', ''datetimetz'', ''multiselect'', ''checkbox'']"


section \<open>Sample handles and records\<close>

text \<open>
  A handle with the accessors the adapter binds and a two-line sublist \<open>item\<close>, and a
  handle that has \<open>getId\<close> and nothing else.
\<close>

definition sampleHandle :: nlobjRecord where
  "sampleHandle =
     \<lparr> methods = [''getId'', ''getField'', ''getFieldValue'', ''setFieldValue'', ''getLineItemCount'',
                  ''getLineItemField'', ''getLineItemValue'', ''setLineItemValue'', ''insertLineItem''],
       getFieldR = (\<lambda>n. if n = ''bogus'' then Inl TypeError
                        else if n = ''odd'' then Inr (JField ''toString'')
                        else if n = ''memo'' then Inr (JField ''textarea'')
                        else Inr Null),
       getLineItemFieldR = (\<lambda>l n. if n = ''tags'' then Inr (JField ''multiselect'')
                                else if n = ''done'' then Inr (JField ''checkbox'')
                                else Inr Null),
       fieldValue = (\<lambda>n. Null),
       fieldValues = (\<lambda>n. Null),
       lineItemValue = (\<lambda>l f n. Null),
       lineItemCount = (\<lambda>l. if l = ''item'' then 2 else - 1) \<rparr>"

definition bareHandle :: nlobjRecord where
  "bareHandle = sampleHandle\<lparr> methods := [''getId''] \<rparr>"

definition sampleWorld :: world where
  "sampleWorld = \<lparr> handle = sampleHandle, logs = [] \<rparr>"

text \<open>
  The adapted record \<open>fromRecord\<close> builds over the sample handle with no field names, and
  the row of the sublist \<open>item\<close> with the fields \<open>done\<close> and \<open>qty\<close> at a line.
\<close>

definition sampleObj :: nsobj where
  "sampleObj =
     [''nlobjRecord'' \<mapsto> DataProp PHandle False False,
      ''save'' \<mapsto> DataProp (PVal (JNative ''save'')) True True,
      ''withSublist'' \<mapsto> DataProp (PVal (JNative ''withSublist'')) True True,
      ''getId'' \<mapsto> DataProp (PVal (JFun ''getId'')) True True,
      ''getField'' \<mapsto> DataProp (PVal (JFun ''getField'')) True True,
      ''getLineItemField'' \<mapsto> DataProp (PVal (JFun ''getLineItemField'')) True True,
      ''setFieldValue'' \<mapsto> DataProp (PVal (JFun ''setFieldValue'')) True True,
      ''getFieldValue'' \<mapsto> DataProp (PVal (JFun ''getFieldValue'')) True True,
      ''setLineItemValue'' \<mapsto> DataProp (PVal (JFun ''setLineItemValue'')) True True,
      ''getLineItemValue'' \<mapsto> DataProp (PVal (JFun ''getLineItemValue'')) True True,
      ''getLineItemCount'' \<mapsto> DataProp (PVal (JFun ''getLineItemCount'')) True True,
      ''insertLineItem'' \<mapsto> DataProp (PVal (JFun ''insertLineItem'')) True True]"


section \<open>Properties of the converters\<close>

lemmas descriptor_defs =
  dateTimeDescriptor_def multiSelectDescriptor_def checkboxDescriptor_def
  defaultDescriptor_def onCell_def cellGetter_def cellSetter_def

text \<open>
  C1. For each of the four converters, \<open>set(undefined)\<close> leaves the store as it was and
  records no setter call; \<open>set\<close> of any other value (null, false, the empty string and
  the empty list included) calls the bound setter exactly once.
\<close>

theorem set_undefined_noop_else_once:
  "dset (onCell L k) Undefined c = c \<and>
   (v \<noteq> Undefined \<longrightarrow>
      (\<exists>a. dset (onCell L k) v c = cellSetter a c) \<and>
      length (setterCalls (dset (onCell L k) v c)) = length (setterCalls c) + 1)"
  by (cases k) (simp_all add: descriptor_defs)

theorem set_undefined_noop_else_once_witness:
  "dset (onCell sampleLib Checkbox) Undefined \<lparr> stored = JStr ''T'', setterCalls = [] \<rparr>
     = \<lparr> stored = JStr ''T'', setterCalls = [] \<rparr> \<and>
   Null \<noteq> Undefined \<and>
   length (setterCalls (dset (onCell sampleLib Checkbox) Null
                           \<lparr> stored = JStr ''T'', setterCalls = [] \<rparr>)) = 1"
  using set_undefined_noop_else_once
          [of sampleLib Checkbox "\<lparr> stored = JStr ''T'', setterCalls = [] \<rparr>" Null]
  by simp

text \<open>
  C3 as the specification words it: every defined value other than null is converted to a
  native date and serialised.  The empty string is defined and not null, yet the setter
  receives null for it.
\<close>

theorem dateTime_set_falsy_counterexample:
  "\<not> (\<forall>v. v \<noteq> Undefined \<and> v \<noteq> Null \<longrightarrow>
         dset (onCell sampleLib (DateTime ''date'')) v \<lparr> stored = Null, setterCalls = [] \<rparr>
           = cellSetter (nlapiDateToString sampleLib (toDate sampleLib (moment sampleLib v)) ''date'')
               \<lparr> stored = Null, setterCalls = [] \<rparr>)"
proof
  assume "\<forall>v. v \<noteq> Undefined \<and> v \<noteq> Null \<longrightarrow>
         dset (onCell sampleLib (DateTime ''date'')) v \<lparr> stored = Null, setterCalls = [] \<rparr>
           = cellSetter (nlapiDateToString sampleLib (toDate sampleLib (moment sampleLib v)) ''date'')
               \<lparr> stored = Null, setterCalls = [] \<rparr>"
  then have "dset (onCell sampleLib (DateTime ''date'')) (JStr []) \<lparr> stored = Null, setterCalls = [] \<rparr>
           = cellSetter (nlapiDateToString sampleLib (toDate sampleLib (moment sampleLib (JStr []))) ''date'')
               \<lparr> stored = Null, setterCalls = [] \<rparr>"
    by blast
  then show False
    by (simp add: descriptor_defs sampleLib_def)
qed

text \<open>
  C3, amended.  The date/time getter returns a falsy raw value unchanged and otherwise the
  moment of the raw string parsed under the field's sub-type.  The setter, for a defined
  value, forwards null when the value is falsy (null, false, 0, the empty string) and
  otherwise the value converted to a native date and serialised under the sub-type.
\<close>

theorem dateTime_get_set:
  "(\<not> truthy (getter s) \<longrightarrow> dget (dateTimeDescriptor L ft getter setter) s = getter s) \<and>
   (truthy (getter s) \<longrightarrow>
      dget (dateTimeDescriptor L ft getter setter) s = moment L (nlapiStringToDate L (getter s) ft)) \<and>
   dset (dateTimeDescriptor L ft getter setter) Null s = setter Null s \<and>
   (v \<noteq> Undefined \<and> \<not> truthy v \<longrightarrow> dset (dateTimeDescriptor L ft getter setter) v s = setter Null s) \<and>
   (truthy v \<longrightarrow>
      dset (dateTimeDescriptor L ft getter setter) v s
        = setter (nlapiDateToString L (toDate L (moment L v)) ft) s)"
  by (cases v) (auto simp add: dateTimeDescriptor_def)

theorem dateTime_get_set_witness:
  "truthy (JDate 7) \<and> \<not> truthy (cellGetter \<lparr> stored = Null, setterCalls = [] \<rparr>) \<and>
   dget (dateTimeDescriptor sampleLib ''datetime'' cellGetter cellSetter)
        \<lparr> stored = Null, setterCalls = [] \<rparr> = Null \<and>
   dset (dateTimeDescriptor sampleLib ''datetime'' cellGetter cellSetter) (JDate 7)
        \<lparr> stored = Null, setterCalls = [] \<rparr>
     = \<lparr> stored = JStr ''1/1/2020:datetime'', setterCalls = [JStr ''1/1/2020:datetime''] \<rparr>"
  using dateTime_get_set [of cellGetter "\<lparr> stored = Null, setterCalls = [] \<rparr>" sampleLib
                            "''datetime''" cellSetter "JDate 7"]
  by (simp add: cellGetter_def cellSetter_def sampleLib_def)

text \<open>
  C5. The checkbox getter is true exactly when the raw value is the token \<open>'T'\<close>; the
  setter stores \<open>'T'\<close> for true and \<open>'F'\<close> for every other defined value; over the echoing
  store, setting true reads back true and setting false reads back false.
\<close>

theorem checkbox_get_set:
  "dget (checkboxDescriptor getter setter) s = JBool (getter s = JStr ''T'') \<and>
   dset (checkboxDescriptor getter setter) (JBool True) s = setter (JStr ''T'') s \<and>
   (v \<noteq> Undefined \<and> v \<noteq> JBool True \<longrightarrow>
      dset (checkboxDescriptor getter setter) v s = setter (JStr ''F'') s) \<and>
   dget (onCell L Checkbox) (dset (onCell L Checkbox) (JBool True) c) = JBool True \<and>
   dget (onCell L Checkbox) (dset (onCell L Checkbox) (JBool False) c) = JBool False"
  by (simp add: descriptor_defs)

theorem checkbox_get_set_witness:
  "Null \<noteq> Undefined \<and> Null \<noteq> JBool True \<and>
   dset (checkboxDescriptor cellGetter cellSetter) Null \<lparr> stored = JStr ''T'', setterCalls = [] \<rparr>
     = \<lparr> stored = JStr ''F'', setterCalls = [JStr ''F''] \<rparr> \<and>
   dget (checkboxDescriptor cellGetter cellSetter) \<lparr> stored = JStr [], setterCalls = [] \<rparr>
     = JBool False"
  using checkbox_get_set [of cellGetter cellSetter "\<lparr> stored = JStr ''T'', setterCalls = [] \<rparr>" Null]
        checkbox_get_set [of cellGetter cellSetter "\<lparr> stored = JStr [], setterCalls = [] \<rparr>" Null]
  by (simp add: cellGetter_def cellSetter_def)

text \<open>
  C6. The multiselect getter returns the raw list when there is one and the empty list
  when the raw value is absent (undefined or null), and never returns undefined or null;
  the setter forwards every defined value unchanged, so over the echoing store setting
  the empty list reads back the empty list.
\<close>

theorem multiSelect_get_set:
  "(getter s = JArr xs \<longrightarrow> dget (multiSelectDescriptor getter setter) s = JArr xs) \<and>
   (getter s = Undefined \<or> getter s = Null \<longrightarrow>
      dget (multiSelectDescriptor getter setter) s = JArr []) \<and>
   dget (multiSelectDescriptor getter setter) s \<noteq> Undefined \<and>
   dget (multiSelectDescriptor getter setter) s \<noteq> Null \<and>
   (v \<noteq> Undefined \<longrightarrow> dset (multiSelectDescriptor getter setter) v s = setter v s) \<and>
   dget (onCell L MultiSelect) (dset (onCell L MultiSelect) (JArr []) c) = JArr []"
  by (cases "getter s") (auto simp add: descriptor_defs)

theorem multiSelect_get_set_witness:
  "cellGetter \<lparr> stored = JArr [JStr ''3''], setterCalls = [] \<rparr> = JArr [JStr ''3''] \<and>
   dget (multiSelectDescriptor cellGetter cellSetter) \<lparr> stored = JArr [JStr ''3''], setterCalls = [] \<rparr>
     = JArr [JStr ''3''] \<and>
   JArr [] \<noteq> Undefined \<and>
   dset (multiSelectDescriptor cellGetter cellSetter) (JArr [])
        \<lparr> stored = JArr [JStr ''3''], setterCalls = [] \<rparr>
     = \<lparr> stored = JArr [], setterCalls = [JArr []] \<rparr>"
  using multiSelect_get_set [of cellGetter "\<lparr> stored = JArr [JStr ''3''], setterCalls = [] \<rparr>"
                               "[JStr ''3'']" cellSetter "JArr []"]
  by (simp add: cellGetter_def cellSetter_def)

section \<open>Properties of the record adapter\<close>

lemma methods_handleCall [simp]: "methods (snd (handleCall m args h)) = methods h"
  by (simp add: handleCall_def split: list.split jsval.split)

lemma methods_callSetter [simp]: "methods (callSetter b v h) = methods h"
proof (cases b)
  case (Bound f args)
  then show ?thesis by (cases f) simp_all
qed

lemma methods_dset [simp]: "methods (dset (accessorDescriptor L a) v h) = methods h"
  by (cases "conv a")
     (simp_all add: accessorDescriptor_def dateTimeDescriptor_def multiSelectDescriptor_def
        checkboxDescriptor_def defaultDescriptor_def)

lemma assign_methods: "methods (handle (snd (assign L obj n v w))) = methods (handle w)"
  by (simp add: assign_def split: option.split slot.split)

lemma assign_other: "m \<noteq> n \<Longrightarrow> fst (assign L obj n v w) m = obj m"
  by (simp add: assign_def split: option.split slot.split)

lemma assign_fresh:
  "obj n = None \<or> obj n = Some (DataProp (PVal v) True True) \<Longrightarrow>
   fst (assign L obj n v w) n = Some (DataProp (PVal v) True True)"
  by (auto simp add: assign_def)

lemma passThru_fold:
  "foldl (passThruStep L) (obj, w) names = (obj', w') \<Longrightarrow>
   obj m = None \<or> obj m = Some (DataProp (PVal (JFun m)) True True) \<Longrightarrow>
   methods (handle w') = methods (handle w) \<and>
   obj' m = (if m \<in> set names \<and> m \<in> set (methods (handle w))
             then Some (DataProp (PVal (JFun m)) True True) else obj m)"
proof (induction names arbitrary: obj w)
  case Nil
  then show ?case by simp
next
  case (Cons n names)
  obtain obj1 w1 where s: "passThruStep L (obj, w) n = (obj1, w1)"
    by (cases "passThruStep L (obj, w) n")
  have m1: "methods (handle w1) = methods (handle w)"
    using s assign_methods [of L obj n "JFun n" w]
    by (auto simp add: passThruStep_def split: if_splits)
  have k1: "obj1 m = (if m = n \<and> m \<in> set (methods (handle w))
                     then Some (DataProp (PVal (JFun m)) True True) else obj m)"
    using s Cons.prems(2) assign_other [of m n L obj "JFun n" w]
      assign_fresh [of obj n "JFun n" L w]
    by (auto simp add: passThruStep_def split: if_splits)
  have d1: "obj1 m = None \<or> obj1 m = Some (DataProp (PVal (JFun m)) True True)"
    using k1 Cons.prems(2) by auto
  from Cons.prems(1) s have "foldl (passThruStep L) (obj1, w1) names = (obj', w')"
    by simp
  from Cons.IH [OF this d1] m1 k1 show ?case
    by auto
qed

lemma defineProperty_other:
  "defineProperty obj n d = Inr obj' \<Longrightarrow> m \<noteq> n \<Longrightarrow> obj' m = obj m"
  by (auto simp add: defineProperty_def split: produced.splits option.splits slot.splits if_splits)

lemma fieldStep_other:
  "fieldStep c h obj n = Inr obj' \<Longrightarrow> m \<noteq> n \<Longrightarrow> obj' m = obj m"
  by (auto simp add: fieldStep_def Let_def split: sum.splits dest: defineProperty_other)

lemma forEachField_other:
  "forEachField c h names obj lg = (Inr obj', lg') \<Longrightarrow> m \<notin> set names \<Longrightarrow> obj' m = obj m"
proof (induction names arbitrary: obj)
  case Nil
  then show ?case by simp
next
  case (Cons n names)
  then show ?case
    by (auto split: sum.splits dest: fieldStep_other)
qed

lemma addFieldProperties_key:
  assumes "addFieldProperties L c ps w = (Inr obj, w')"
    and "m \<notin> set ps" and "m \<noteq> ''nlobjRecord''" and "m \<noteq> ''save''" and "m \<noteq> ''withSublist''"
  shows "obj m = None \<and> methods (handle w') = methods (handle w)"
proof -
  obtain r lg where f: "forEachField c (handle w) ps Map.empty (logs w) = (r, lg)"
    by (cases "forEachField c (handle w) ps Map.empty (logs w)")
  with assms(1) obtain obj0 where r: "r = Inr obj0"
    by (cases r) (auto simp add: addFieldProperties_def)
  from forEachField_other [OF f [unfolded r] assms(2)] have o0: "obj0 m = None" by simp
  obtain obj1 where d: "defineValue obj0 ''nlobjRecord'' PHandle (Some False) = Inr obj1"
    using assms(1) f r
    by (cases "defineValue obj0 ''nlobjRecord'' PHandle (Some False)")
       (auto simp add: addFieldProperties_def Let_def split: prod.splits)
  have o1: "obj1 m = None"
    using d o0 assms(3)
    by (auto simp add: defineValue_def split: option.splits slot.splits if_splits)
  let ?w1 = "w\<lparr>logs := lg @ [(LDebug, [S ''adding [nlobjRecord] property to nsdal object''], [])]\<rparr>"
  obtain obj2 w2 where a2: "assign L obj1 ''save'' (JNative ''save'') ?w1 = (obj2, w2)"
    by (cases "assign L obj1 ''save'' (JNative ''save'') ?w1")
  obtain obj3 w3 where a3: "assign L obj2 ''withSublist'' (JNative ''withSublist'') w2 = (obj3, w3)"
    by (cases "assign L obj2 ''withSublist'' (JNative ''withSublist'') w2")
  have res: "obj = obj3 \<and> w' = w3"
    using assms(1) f r d a2 a3 by (simp add: addFieldProperties_def Let_def)
  have "obj2 m = None"
    using assign_other [of m "''save''" L obj1 "JNative ''save''" ?w1] a2 o1 assms(4) by simp
  then have "obj3 m = None"
    using assign_other [of m "''withSublist''" L obj2 "JNative ''withSublist''" w2] a3 assms(5) by simp
  moreover have "methods (handle w3) = methods (handle w)"
    using assign_methods [of L obj1 "''save''" "JNative ''save''" ?w1]
      assign_methods [of L obj2 "''withSublist''" "JNative ''withSublist''" w2] a2 a3 by simp
  ultimately show ?thesis using res by simp
qed

lemma passThru_not_native:
  "m \<in> set functionsToPassThru \<Longrightarrow> m \<noteq> ''nlobjRecord'' \<and> m \<noteq> ''save'' \<and> m \<noteq> ''withSublist''"
  by (auto simp add: functionsToPassThru_def)

lemma forEachField_append:
  "forEachField c h pre obj lg = (Inr obj', lg') \<Longrightarrow>
   lg' = lg \<and> forEachField c h (pre @ rest) obj lg = forEachField c h rest obj' lg"
  by (induction pre arbitrary: obj) (auto split: sum.splits)

lemma handleCall_getField [simp]: "handleCall ''getField'' [JStr a] h = (getFieldR h a, h)"
  by (simp add: handleCall_def)

text \<open>
  C7. When the fields before \<open>name\<close> were attached and attaching \<open>name\<close> raises an error
  \<open>e\<close> (a TypeError of the handle for a field name it does not know, or any other error),
  \<open>addFieldProperties\<close> and \<open>fromRecord\<close> raise that same error \<open>e\<close>: no error is suppressed.
  When \<open>e\<close> is a TypeError, the log has gained exactly one entry, at error level, titled
  \<open>addFieldProperties() error\<close>, whose details are \<open>possibly invalid field name: \<close> followed
  by the field name between single quotes; for any other error the log is unchanged.
\<close>

theorem field_error_logged_and_rethrown:
  assumes "forEachField c (handle w) pre Map.empty (logs w) = (Inr obj, lg)"
    and "fieldStep c (handle w) obj name = Inl e"
  shows "addFieldProperties L c (pre @ name # post) w
           = (Inl e,
              w\<lparr>logs := logs w @
                (if e = TypeError
                 then [(LError, [S ''addFieldProperties() error''],
                        [S (''possibly invalid field name: '' @ [CHR 0x27]), S name, S [CHR 0x27]])]
                 else [])\<rparr>) \<and>
         fromRecord L c (pre @ name # post) w
           = (Inl e,
              w\<lparr>logs := logs w @
                (if e = TypeError
                 then [(LError, [S ''addFieldProperties() error''],
                        [S (''possibly invalid field name: '' @ [CHR 0x27]), S name, S [CHR 0x27]])]
                 else [])\<rparr>)"
proof -
  from forEachField_append [OF assms(1), of "name # post"] assms(2)
  have "forEachField c (handle w) (pre @ name # post) Map.empty (logs w)
          = (Inl e,
             if e = TypeError
             then logs w @ [(LError, [S ''addFieldProperties() error''],
                             [S (''possibly invalid field name: '' @ [CHR 0x27]), S name, S [CHR 0x27]])]
             else logs w)"
    by simp
  then show ?thesis
    by (simp add: addFieldProperties_def fromRecord_def)
qed

theorem field_error_logged_and_rethrown_witness:
  "fieldStep False (handle sampleWorld) Map.empty ''bogus'' = Inl TypeError \<and>
   fromRecord sampleLib False [''bogus'', ''title''] sampleWorld
     = (Inl TypeError,
        \<lparr> handle = sampleHandle,
          logs = [(LError, [S ''addFieldProperties() error''],
                   [S (''possibly invalid field name: '' @ [CHR 0x27]), S ''bogus'', S [CHR 0x27]])] \<rparr>)"
proof -
  have a: "forEachField False (handle sampleWorld) [] Map.empty (logs sampleWorld) = (Inr Map.empty, [])"
    by (simp add: sampleWorld_def)
  have b: "fieldStep False (handle sampleWorld) Map.empty ''bogus'' = Inl TypeError"
    by (simp add: fieldStep_def sampleWorld_def sampleHandle_def callHandleMethod_def)
  from field_error_logged_and_rethrown [OF a b, of sampleLib "[''title'']"] b show ?thesis
    by (simp add: sampleWorld_def)
qed

text \<open>
  C9 as the specification words it: building over a handle that lacks allow-listed
  methods never raises.  Over a handle that lacks \<open>getField\<close>, building with one field
  name raises a TypeError.
\<close>

theorem passThru_missing_accessor_counterexample:
  "\<not> (\<forall>ps. \<exists>obj w'. fromRecord sampleLib False ps \<lparr> handle = bareHandle, logs = [] \<rparr> = (Inr obj, w'))"
proof
  assume "\<forall>ps. \<exists>obj w'. fromRecord sampleLib False ps \<lparr> handle = bareHandle, logs = [] \<rparr> = (Inr obj, w')"
  then obtain obj w' where
    "fromRecord sampleLib False [''title''] \<lparr> handle = bareHandle, logs = [] \<rparr> = (Inr obj, w')"
    by blast
  then show False
    by (simp add: fromRecord_def addFieldProperties_def fieldStep_def callHandleMethod_def
          bareHandle_def sampleHandle_def)
qed

text \<open>
  C9, amended.  When \<open>fromRecord\<close> returns, the adapted record exposes an allow-listed
  method that is not also a requested field name exactly when the handle has it.  The
  copying of the methods never raises: \<open>fromRecord\<close> returns whenever attaching the field
  properties does, and with no field name it returns for every handle.
\<close>

theorem passThru_exposed_iff_present:
  "(fromRecord L c ps w = (Inr obj, w') \<and> m \<in> set functionsToPassThru \<and> m \<notin> set ps \<longrightarrow>
      (exposes obj m \<longleftrightarrow> m \<in> set (methods (handle w)))) \<and>
   (\<forall>obj0 w0. addFieldProperties L c ps w = (Inr obj0, w0) \<longrightarrow>
      (\<exists>obj1 w1. fromRecord L c ps w = (Inr obj1, w1))) \<and>
   (\<exists>obj1 w1. fromRecord L c [] w = (Inr obj1, w1))"
proof (intro conjI impI allI)
  assume a: "fromRecord L c ps w = (Inr obj, w') \<and> m \<in> set functionsToPassThru \<and> m \<notin> set ps"
  obtain r0 w0 where af: "addFieldProperties L c ps w = (r0, w0)"
    by (cases "addFieldProperties L c ps w")
  with a obtain obj0 where r0: "r0 = Inr obj0"
    by (cases r0) (auto simp add: fromRecord_def)
  obtain obj1 w1 where fl: "foldl (passThruStep L) (obj0, w0) functionsToPassThru = (obj1, w1)"
    by (cases "foldl (passThruStep L) (obj0, w0) functionsToPassThru")
  from a af r0 fl have o: "obj = obj1" by (simp add: fromRecord_def)
  from a passThru_not_native [of m]
  have k: "obj0 m = None \<and> methods (handle w0) = methods (handle w)"
    using addFieldProperties_key [OF af [unfolded r0], of m] by simp
  from passThru_fold [OF fl, of m] k a
  have "obj1 m = (if m \<in> set (methods (handle w))
                  then Some (DataProp (PVal (JFun m)) True True) else None)"
    by simp
  with o show "exposes obj m \<longleftrightarrow> m \<in> set (methods (handle w))"
    by (simp add: exposes_def)
next
  fix obj0 w0
  assume "addFieldProperties L c ps w = (Inr obj0, w0)"
  then show "\<exists>obj1 w1. fromRecord L c ps w = (Inr obj1, w1)"
    by (simp add: fromRecord_def split: prod.split)
next
  show "\<exists>obj1 w1. fromRecord L c [] w = (Inr obj1, w1)"
    by (simp add: fromRecord_def addFieldProperties_def defineValue_def assign_def split: prod.split)
qed

theorem passThru_exposed_iff_present_witness:
  "\<exists>obj w'. fromRecord sampleLib True [] sampleWorld = (Inr obj, w') \<and>
      ''getId'' \<in> set functionsToPassThru \<and> ''getSubList'' \<in> set functionsToPassThru \<and>
      exposes obj ''getId'' \<and> \<not> exposes obj ''getSubList''"
proof -
  from passThru_exposed_iff_present [of sampleLib True "[]" sampleWorld]
  obtain obj w' where f: "fromRecord sampleLib True [] sampleWorld = (Inr obj, w')"
    by blast
  have i: "''getId'' \<in> set functionsToPassThru" "''getSubList'' \<in> set functionsToPassThru"
    by (simp_all add: functionsToPassThru_def)
  from passThru_exposed_iff_present [of sampleLib True "[]" sampleWorld obj w' "''getId''"] f i
  have 1: "exposes obj ''getId''"
    by (simp add: sampleWorld_def sampleHandle_def)
  from passThru_exposed_iff_present [of sampleLib True "[]" sampleWorld obj w' "''getSubList''"] f i
  have 2: "\<not> exposes obj ''getSubList''"
    by (simp add: sampleWorld_def sampleHandle_def)
  from f i 1 2 show ?thesis by blast
qed

lemma handleCall_getLineItemCount [simp]:
  "handleCall ''getLineItemCount'' [JStr a] h = (Inr (JNum (lineItemCount h a)), h)"
  by (simp add: handleCall_def)

lemma handleCall_getLineItemField [simp]:
  "handleCall ''getLineItemField'' [JStr a, JStr b] h = (getLineItemFieldR h a b, h)"
  by (simp add: handleCall_def)

lemma handleCall_insertLineItem [simp]:
  "handleCall ''insertLineItem'' [JStr a, JNum p] h =
     (Inr Undefined,
      h\<lparr>lineItemCount := (lineItemCount h)(a := lineItemCount h a + 1),
        lineItemValue := (lineItemValue h)
          (a := (\<lambda>f n. if n < p then lineItemValue h a f n
                        else if n = p then Null
                        else lineItemValue h a f (n - 1)))\<rparr>)"
  by (simp add: handleCall_def)

lemma objRead_exposes: "exposes obj m \<Longrightarrow> objRead L obj m h = PVal (JFun m)"
  by (auto simp add: exposes_def objRead_def split: option.splits slot.splits pvalue.splits jsval.splits)

lemma default_tag:
  "t \<notin> set recognisedTypes \<Longrightarrow> t \<notin> set objectPrototypeNames \<Longrightarrow>
   bodyDescriptorFor h t name =
     asDesc (boundDescriptor DefaultDesc (bindMethod h ''getFieldValue'' [JStr name])
                                          (bindMethod h ''setFieldValue'' [JStr name]))"
  by (simp add: bodyDescriptorFor_def bodyFieldDescriptors_def recognisedTypes_def)

lemma default_tag_sublist:
  "t \<notin> set recognisedTypes \<Longrightarrow> t \<notin> set objectPrototypeNames \<Longrightarrow>
   sublistDescriptorFor L ro h t l name n =
     asDesc (boundDescriptor DefaultDesc
               (bindOn (objRead L ro ''getLineItemValue'' h) [JStr l, JStr name, n])
               (bindOn (objRead L ro ''setLineItemValue'' h) [JStr l, JStr name, n]))"
  by (simp add: sublistDescriptorFor_def sublistFieldDescriptors_def recognisedTypes_def)

lemma fallback_not_special:
  "''defaultDesc'' \<notin> set recognisedTypes \<and> ''defaultDesc'' \<notin> set objectPrototypeNames \<and>
   ''unknown'' \<notin> set recognisedTypes \<and> ''unknown'' \<notin> set objectPrototypeNames"
  by (simp add: recognisedTypes_def objectPrototypeNames_def)

text \<open>
  C8 at a field whose metadata carries the type tag \<open>toString\<close>.  The specification gives
  the default converter for every tag that is not one of the five recognised ones, and the
  code means to: \<open>bodyFieldDescriptors[fieldType] || bodyFieldDescriptors["defaultDesc"]\<close>.
  The lookup has no own-property check, so for this tag it finds the inherited
  \<open>Object.prototype.toString\<close> instead of falling back; what that answers is not a
  property description, and attaching the field, and with it \<open>fromRecord\<close>, raises a
  TypeError.  A field with the unrecognised tag \<open>textarea\<close> on the same handle gets the
  default converter.
\<close>

theorem inherited_tag_raises:
  "''toString'' \<notin> set recognisedTypes \<and>
   getFieldR sampleHandle ''odd'' = Inr (JField ''toString'') \<and>
   fieldStep False sampleHandle Map.empty ''odd'' = Inl TypeError \<and>
   fst (fromRecord sampleLib False [''odd''] sampleWorld) = Inl TypeError \<and>
   getFieldR sampleHandle ''memo'' = Inr (JField ''textarea'') \<and>
   fieldStep False sampleHandle Map.empty ''memo''
     = Inr [''memo'' \<mapsto> AccessorProp \<lparr> conv = DefaultDesc,
                                         getterB = Bound (JFun ''getFieldValue'') [JStr ''memo''],
                                         setterB = Bound (JFun ''setFieldValue'') [JStr ''memo''] \<rparr> False]"
proof -
  have 1: "fieldStep False sampleHandle Map.empty ''odd'' = Inl TypeError"
    by (simp add: sampleHandle_def fieldStep_def callHandleMethod_def
          bodyDescriptorFor_def bodyFieldDescriptors_def objectPrototypeNames_def callInherited_def
          defineProperty_def)
  have 2: "fst (fromRecord sampleLib False [''odd''] sampleWorld) = Inl TypeError"
    using 1 by (simp add: fromRecord_def addFieldProperties_def sampleWorld_def)
  have 3: "fieldStep False sampleHandle Map.empty ''memo''
     = Inr [''memo'' \<mapsto> AccessorProp \<lparr> conv = DefaultDesc,
                                         getterB = Bound (JFun ''getFieldValue'') [JStr ''memo''],
                                         setterB = Bound (JFun ''setFieldValue'') [JStr ''memo''] \<rparr> False]"
    by (simp add: sampleHandle_def fieldStep_def callHandleMethod_def
          bodyDescriptorFor_def bodyFieldDescriptors_def objectPrototypeNames_def
          asDesc_def boundDescriptor_def bindMethod_def defineProperty_def)
  from 1 2 3 show ?thesis
    by (simp add: recognisedTypes_def sampleHandle_def)
qed

text \<open>
  Away from the names inherited from \<open>Object.prototype\<close> the fallback works.  For a body
  field of a handle that has \<open>getFieldValue\<close> and \<open>setFieldValue\<close>, and for a sublist field of
  an adapted record that exposes \<open>getLineItemValue\<close> and \<open>setLineItemValue\<close>, under a name not
  attached before: in a client script, or when the metadata lookup answers nothing, or
  when the type tag is neither recognised nor inherited, the property is attached with
  the default converter.
\<close>

lemma default_when_no_metadata:
  "(''getFieldValue'' \<in> set (methods h) \<and> ''setFieldValue'' \<in> set (methods h) \<and> obj name = None \<and>
    (c \<or> ''getField'' \<in> set (methods h) \<and> getFieldR h name = Inr v \<and>
          (\<not> truthy v \<or> typeKey v \<notin> set recognisedTypes \<and> typeKey v \<notin> set objectPrototypeNames))
    \<longrightarrow> fieldStep c h obj name =
          Inr (obj(name \<mapsto> AccessorProp \<lparr> conv = DefaultDesc,
                                          getterB = Bound (JFun ''getFieldValue'') [JStr name],
                                          setterB = Bound (JFun ''setFieldValue'') [JStr name] \<rparr> False))) \<and>
   (exposes ro ''getLineItemValue'' \<and> exposes ro ''setLineItemValue'' \<and> r name = None \<and>
    (c \<or> exposes ro ''getLineItemField'' \<and> getLineItemFieldR h l name = Inr v \<and>
          (\<not> truthy v \<or> typeKey v \<notin> set recognisedTypes \<and> typeKey v \<notin> set objectPrototypeNames))
    \<longrightarrow> rowFieldStep L c ro l n r name h =
          (Inr (r(name \<mapsto> RowAccessor \<lparr> conv = DefaultDesc,
                                         getterB = Bound (JFun ''getLineItemValue'') [JStr l, JStr name, n],
                                         setterB = Bound (JFun ''setLineItemValue'') [JStr l, JStr name, n] \<rparr>)),
           h))"
proof (intro conjI impI)
  assume a: "''getFieldValue'' \<in> set (methods h) \<and> ''setFieldValue'' \<in> set (methods h) \<and> obj name = None \<and>
    (c \<or> ''getField'' \<in> set (methods h) \<and> getFieldR h name = Inr v \<and>
          (\<not> truthy v \<or> typeKey v \<notin> set recognisedTypes \<and> typeKey v \<notin> set objectPrototypeNames))"
  have d: "\<And>t. t \<notin> set recognisedTypes \<Longrightarrow> t \<notin> set objectPrototypeNames \<Longrightarrow>
      (case bodyDescriptorFor h t name of Inl e \<Rightarrow> Inl e | Inr d \<Rightarrow> defineProperty obj name d)
        = Inr (obj(name \<mapsto> AccessorProp \<lparr> conv = DefaultDesc,
                                          getterB = Bound (JFun ''getFieldValue'') [JStr name],
                                          setterB = Bound (JFun ''setFieldValue'') [JStr name] \<rparr> False))"
    using a by (simp add: default_tag asDesc_def boundDescriptor_def bindMethod_def defineProperty_def)
  from a consider "c" | "\<not> c" "''getField'' \<in> set (methods h)" "getFieldR h name = Inr v" "\<not> truthy v"
    | "\<not> c" "''getField'' \<in> set (methods h)" "getFieldR h name = Inr v" "truthy v"
      "typeKey v \<notin> set recognisedTypes" "typeKey v \<notin> set objectPrototypeNames"
    by blast
  then show "fieldStep c h obj name =
          Inr (obj(name \<mapsto> AccessorProp \<lparr> conv = DefaultDesc,
                                          getterB = Bound (JFun ''getFieldValue'') [JStr name],
                                          setterB = Bound (JFun ''setFieldValue'') [JStr name] \<rparr> False))"
  proof cases
    case 1
    then show ?thesis using d [of "''defaultDesc''"] fallback_not_special
      by (simp add: fieldStep_def)
  next
    case 2
    then show ?thesis using d [of "''defaultDesc''"] fallback_not_special
      by (simp add: fieldStep_def callHandleMethod_def handleCall_def)
  next
    case 3
    then show ?thesis using d [of "typeKey v"]
      by (simp add: fieldStep_def callHandleMethod_def handleCall_def)
  qed
next
  assume a: "exposes ro ''getLineItemValue'' \<and> exposes ro ''setLineItemValue'' \<and> r name = None \<and>
    (c \<or> exposes ro ''getLineItemField'' \<and> getLineItemFieldR h l name = Inr v \<and>
          (\<not> truthy v \<or> typeKey v \<notin> set recognisedTypes \<and> typeKey v \<notin> set objectPrototypeNames))"
  have d: "\<And>t. t \<notin> set recognisedTypes \<Longrightarrow> t \<notin> set objectPrototypeNames \<Longrightarrow>
      (case sublistDescriptorFor L ro h t l name n of
         Inl e \<Rightarrow> (Inl e, h) | Inr d \<Rightarrow> (defineRowProperty r name d, h))
        = (Inr (r(name \<mapsto> RowAccessor \<lparr> conv = DefaultDesc,
                                         getterB = Bound (JFun ''getLineItemValue'') [JStr l, JStr name, n],
                                         setterB = Bound (JFun ''setLineItemValue'') [JStr l, JStr name, n] \<rparr>)),
           h)"
    using a
    by (simp add: default_tag_sublist objRead_exposes asDesc_def boundDescriptor_def bindOn_def
          defineRowProperty_def)
  from a consider "c" | "\<not> c" "exposes ro ''getLineItemField''" "getLineItemFieldR h l name = Inr v" "\<not> truthy v"
    | "\<not> c" "exposes ro ''getLineItemField''" "getLineItemFieldR h l name = Inr v" "truthy v"
      "typeKey v \<notin> set recognisedTypes" "typeKey v \<notin> set objectPrototypeNames"
    by blast
  then show "rowFieldStep L c ro l n r name h =
          (Inr (r(name \<mapsto> RowAccessor \<lparr> conv = DefaultDesc,
                                         getterB = Bound (JFun ''getLineItemValue'') [JStr l, JStr name, n],
                                         setterB = Bound (JFun ''setLineItemValue'') [JStr l, JStr name, n] \<rparr>)),
           h)"
  proof cases
    case 1
    then show ?thesis using d [of "''unknown''"] fallback_not_special
      by (simp add: rowFieldStep_def)
  next
    case 2
    then show ?thesis using d [of "''unknown''"] fallback_not_special
      by (simp add: rowFieldStep_def objRead_exposes callValue_def)
  next
    case 3
    then show ?thesis using d [of "typeKey v"]
      by (simp add: rowFieldStep_def objRead_exposes callValue_def)
  qed
qed

lemma default_when_no_metadata_sample:
  "fieldStep True sampleHandle Map.empty ''title''
     = Inr [''title'' \<mapsto> AccessorProp \<lparr> conv = DefaultDesc,
                                          getterB = Bound (JFun ''getFieldValue'') [JStr ''title''],
                                          setterB = Bound (JFun ''setFieldValue'') [JStr ''title''] \<rparr> False] \<and>
   getLineItemFieldR sampleHandle ''item'' ''qty'' = Inr Null \<and>
   rowFieldStep sampleLib False sampleObj ''item'' (JNum 1) Map.empty ''qty'' sampleHandle
     = (Inr [''qty'' \<mapsto> RowAccessor \<lparr> conv = DefaultDesc,
                 getterB = Bound (JFun ''getLineItemValue'') [JStr ''item'', JStr ''qty'', JNum 1],
                 setterB = Bound (JFun ''setLineItemValue'') [JStr ''item'', JStr ''qty'', JNum 1] \<rparr>],
        sampleHandle)"
proof -
  have m: "''getFieldValue'' \<in> set (methods sampleHandle)" "''setFieldValue'' \<in> set (methods sampleHandle)"
    by (simp_all add: sampleHandle_def)
  have e: "exposes sampleObj ''getLineItemValue''" "exposes sampleObj ''setLineItemValue''"
    "exposes sampleObj ''getLineItemField''"
    by (simp_all add: exposes_def sampleObj_def)
  have g: "getLineItemFieldR sampleHandle ''item'' ''qty'' = Inr Null"
    by (simp add: sampleHandle_def)
  from default_when_no_metadata [of sampleHandle Map.empty "''title''" True Null sampleObj Map.empty
         "''item''" sampleLib "JNum 1"] m
  have 1: "fieldStep True sampleHandle Map.empty ''title''
     = Inr [''title'' \<mapsto> AccessorProp \<lparr> conv = DefaultDesc,
                                          getterB = Bound (JFun ''getFieldValue'') [JStr ''title''],
                                          setterB = Bound (JFun ''setFieldValue'') [JStr ''title''] \<rparr> False]"
    by simp
  from default_when_no_metadata [of sampleHandle Map.empty "''qty''" False Null sampleObj Map.empty
         "''item''" sampleLib "JNum 1"] e g
  have 2: "rowFieldStep sampleLib False sampleObj ''item'' (JNum 1) Map.empty ''qty'' sampleHandle
     = (Inr [''qty'' \<mapsto> RowAccessor \<lparr> conv = DefaultDesc,
                 getterB = Bound (JFun ''getLineItemValue'') [JStr ''item'', JStr ''qty'', JNum 1],
                 setterB = Bound (JFun ''setLineItemValue'') [JStr ''item'', JStr ''qty'', JNum 1] \<rparr>],
        sampleHandle)"
    by simp
  from 1 2 g show ?thesis by simp
qed

text \<open>The sample record is the record \<open>fromRecord\<close> returns over the sample handle.\<close>

lemma passThru_fold_other:
  "foldl (passThruStep L) (obj, w) names = (obj', w') \<Longrightarrow> m \<notin> set names \<Longrightarrow> obj' m = obj m"
proof (induction names arbitrary: obj w)
  case Nil
  then show ?case by simp
next
  case (Cons n names)
  obtain obj1 w1 where s: "passThruStep L (obj, w) n = (obj1, w1)"
    by (cases "passThruStep L (obj, w) n")
  have "obj1 m = obj m"
    using s Cons.prems(2) assign_other [of m n L obj "JFun n" w]
    by (auto simp add: passThruStep_def split: if_splits)
  moreover from Cons.prems(1) s have "foldl (passThruStep L) (obj1, w1) names = (obj', w')"
    by simp
  ultimately show ?case using Cons.IH [of obj1 w1] Cons.prems(2) by simp
qed

lemma sampleObj_built:
  "\<exists>w'. fromRecord sampleLib True [] sampleWorld = (Inr sampleObj, w')"
proof -
  let ?obj0 = "[''nlobjRecord'' \<mapsto> DataProp PHandle False False,
      ''save'' \<mapsto> DataProp (PVal (JNative ''save'')) True True,
      ''withSublist'' \<mapsto> DataProp (PVal (JNative ''withSublist'')) True True] :: nsobj"
  obtain w0 where a: "addFieldProperties sampleLib True [] sampleWorld = (Inr ?obj0, w0)"
    and h0: "handle w0 = sampleHandle"
    by (simp add: addFieldProperties_def defineValue_def assign_def sampleWorld_def)
  obtain obj1 w1 where f: "foldl (passThruStep sampleLib) (?obj0, w0) functionsToPassThru = (obj1, w1)"
    by (cases "foldl (passThruStep sampleLib) (?obj0, w0) functionsToPassThru")
  have "obj1 m = sampleObj m" for m
  proof (cases "m \<in> set functionsToPassThru")
    case True
    then have "?obj0 m = None" by (auto simp add: functionsToPassThru_def)
    with passThru_fold [OF f, of m] True h0
    have "obj1 m = (if m \<in> set (methods sampleHandle)
                    then Some (DataProp (PVal (JFun m)) True True) else None)"
      by simp
    then show ?thesis using True
      by (auto simp add: sampleHandle_def sampleObj_def functionsToPassThru_def)
  next
    case False
    from passThru_fold_other [OF f False] have "obj1 m = ?obj0 m" .
    then show ?thesis using False
      by (auto simp add: sampleObj_def functionsToPassThru_def)
  qed
  then have "obj1 = sampleObj" by (rule ext)
  with a f show ?thesis by (simp add: fromRecord_def)
qed

lemma withSublist_fresh:
  assumes "this l = None" and "withSublist L c l ps this w = Some (Inr this', w')"
  shows "\<exists>rows. this' = this(l \<mapsto> DataProp (PList rows ps) False False)"
proof -
  have d: "defineValue this l (PList [] ps) None = Inr (this(l \<mapsto> DataProp (PList [] ps) False False))"
    using assms(1) by (simp add: defineValue_def)
  show ?thesis
    using assms(2)
    by (auto simp add: withSublist_def d setRows_def Let_def
          split: prod.splits sum.splits option.splits)
qed

lemma withSublist_again:
  assumes "this l = Some (DataProp (PList rows ps) False False)"
  shows "\<exists>e w'. withSublist L c l ps2 this w = Some (Inl e, w') \<and>
             (exposes this ''getLineItemCount'' \<longrightarrow> e = TypeError)"
proof -
  have d: "defineValue this l (PList [] ps2) None = Inl TypeError"
    using assms by (simp add: defineValue_def)
  show ?thesis
  proof (cases "exposes this ''getLineItemCount''")
    case True
    then show ?thesis
      by (simp add: withSublist_def d objRead_exposes callValue_def Let_def)
  next
    case False
    then show ?thesis
      by (auto simp add: withSublist_def d Let_def split: prod.splits sum.splits)
  qed
qed

text \<open>
  C10 as the specification words it: a second \<open>withSublist\<close> with a name already attached
  raises a TypeError on every adapted record.  The property \<open>save\<close> was created by
  assignment and is configurable; \<open>withSublist\<close> under that name redefines it and leaves it
  configurable, so a second call under the same name succeeds as well.
\<close>

theorem withSublist_configurable_name_counterexample:
  "\<exists>this1 w1 this2 w2.
      withSublist sampleLib True ''save'' [] sampleObj sampleWorld = Some (Inr this1, w1) \<and>
      withSublist sampleLib True ''save'' [] this1 w1 = Some (Inr this2, w2)"
proof -
  have c: "callValue (objRead sampleLib sampleObj ''getLineItemCount'' sampleHandle) [JStr ''save''] sampleHandle
             = (Inr (JNum (- 1)), sampleHandle)"
    by (simp add: objRead_def sampleObj_def callValue_def sampleHandle_def)
  have d: "defineValue sampleObj ''save'' (PList [] []) None
             = Inr (sampleObj(''save'' \<mapsto> DataProp (PList [] []) False True))"
    by (simp add: defineValue_def sampleObj_def)
  have 1: "withSublist sampleLib True ''save'' [] sampleObj sampleWorld
             = Some (Inr (sampleObj(''save'' \<mapsto> DataProp (PList [] []) False True)), sampleWorld)"
    by (simp add: withSublist_def sampleWorld_def c d parseIntJS_def lineNumbers_def setRows_def)
  have c2: "callValue (objRead sampleLib (sampleObj(''save'' \<mapsto> DataProp (PList [] []) False True))
                         ''getLineItemCount'' sampleHandle) [JStr ''save''] sampleHandle
             = (Inr (JNum (- 1)), sampleHandle)"
    by (simp add: objRead_def sampleObj_def callValue_def sampleHandle_def)
  have d2: "defineValue (sampleObj(''save'' \<mapsto> DataProp (PList [] []) False True)) ''save'' (PList [] []) None
             = Inr (sampleObj(''save'' \<mapsto> DataProp (PList [] []) False True))"
    by (simp add: defineValue_def)
  have 2: "withSublist sampleLib True ''save'' [] (sampleObj(''save'' \<mapsto> DataProp (PList [] []) False True))
             sampleWorld
             = Some (Inr (sampleObj(''save'' \<mapsto> DataProp (PList [] []) False True)), sampleWorld)"
    by (simp add: withSublist_def sampleWorld_def c2 d2 parseIntJS_def lineNumbers_def setRows_def)
  from 1 2 show ?thesis by simp
qed

text \<open>
  C10, amended.  When the sublist name was not yet a property of the adapted record and
  \<open>withSublist\<close> returned, the attached property is read-only and non-configurable, and any
  further \<open>withSublist\<close> under that name returns by raising an error; it is a TypeError
  whenever the record exposes \<open>getLineItemCount\<close>.
\<close>

theorem withSublist_twice_raises:
  assumes "this l = None"
    and "withSublist L c l ps this w = Some (Inr this', w')"
  shows "(\<exists>rows. this' l = Some (DataProp (PList rows ps) False False)) \<and>
         (\<exists>e w3. withSublist L c2 l ps2 this' w2 = Some (Inl e, w3)) \<and>
         (exposes this ''getLineItemCount'' \<longrightarrow>
            (\<exists>w3. withSublist L c2 l ps2 this' w2 = Some (Inl TypeError, w3)))"
proof -
  from withSublist_fresh [OF assms] obtain rows where
    t: "this' = this(l \<mapsto> DataProp (PList rows ps) False False)" by blast
  then have s: "this' l = Some (DataProp (PList rows ps) False False)" by simp
  have e: "exposes this ''getLineItemCount'' \<Longrightarrow> exposes this' ''getLineItemCount''"
    using assms(1) t by (auto simp add: exposes_def)
  from withSublist_again [of this' l rows ps L c2 ps2 w2] s e show ?thesis by auto
qed

theorem withSublist_twice_raises_witness:
  "sampleObj ''item'' = None \<and> exposes sampleObj ''getLineItemCount'' \<and>
   (\<exists>this' w' w3. withSublist sampleLib True ''item'' [] sampleObj sampleWorld = Some (Inr this', w') \<and>
      withSublist sampleLib True ''item'' [''qty''] this' w' = Some (Inl TypeError, w3))"
proof -
  have n: "sampleObj ''item'' = None" and x: "exposes sampleObj ''getLineItemCount''"
    by (simp_all add: sampleObj_def exposes_def)
  have c: "callValue (objRead sampleLib sampleObj ''getLineItemCount'' sampleHandle) [JStr ''item''] sampleHandle
             = (Inr (JNum 2), sampleHandle)"
    by (simp add: objRead_exposes x callValue_def sampleHandle_def)
  have d: "defineValue sampleObj ''item'' (PList [] []) None
             = Inr (sampleObj(''item'' \<mapsto> DataProp (PList [] []) False False))"
    by (simp add: defineValue_def n)
  have u: "[1..2] = [1, 2::int]" by (simp add: upto.simps)
  have 1: "withSublist sampleLib True ''item'' [] sampleObj sampleWorld
             = Some (Inr (sampleObj(''item'' \<mapsto> DataProp (PList [Map.empty, Map.empty] []) False False)),
                     sampleWorld)"
    by (simp add: withSublist_def sampleWorld_def c d parseIntJS_def lineNumbers_def setRows_def u
          addNewLineItem_def)
  from withSublist_twice_raises [OF n 1, of True "[''qty'']" sampleWorld] x 1 n show ?thesis
    by auto
qed









lemma exposes_other:
  "exposes obj m \<Longrightarrow> m \<noteq> l \<Longrightarrow> exposes (obj(l \<mapsto> x)) m"
  by (simp add: exposes_def)





lemma sampleObj_exposes:
  "exposes sampleObj ''getLineItemCount''" "exposes sampleObj ''insertLineItem''"
  "exposes sampleObj ''getLineItemField''" "exposes sampleObj ''getLineItemValue''"
  "exposes sampleObj ''setLineItemValue''"
  by (simp_all add: sampleObj_def exposes_def)


text \<open>
  C2 at a sublist field whose metadata type is \<open>multiselect\<close>.  The specification binds
  every row property to (sublist name, field name, line).  The multiselect entry of
  \<open>sublistFieldDescriptors\<close> binds \<open>getLineItemValues\<close> and \<open>setLineItemValues\<close> to (field
  name, line) only, and these two methods are not on the pass-through list: on an adapted
  record attaching the row raises a TypeError, and on a record that does have the two
  methods the row property is bound without the sublist name.
\<close>

theorem multiselect_row_drops_sublist_name:
  "''getLineItemValues'' \<notin> set functionsToPassThru \<and>
   getLineItemFieldR sampleHandle ''item'' ''tags'' = Inr (JField ''multiselect'') \<and>
   rowFieldStep sampleLib False sampleObj ''item'' (JNum 1) Map.empty ''tags'' sampleHandle
     = (Inl TypeError, sampleHandle) \<and>
   withSublist sampleLib False ''item'' [''tags''] sampleObj sampleWorld = Some (Inl TypeError, sampleWorld) \<and>
   rowFieldStep sampleLib False
       (sampleObj(''getLineItemValues'' \<mapsto> DataProp (PVal (JFun ''getLineItemValues'')) True True,
                  ''setLineItemValues'' \<mapsto> DataProp (PVal (JFun ''setLineItemValues'')) True True))
       ''item'' (JNum 1) Map.empty ''tags'' sampleHandle
     = (Inr [''tags'' \<mapsto> RowAccessor \<lparr> conv = MultiSelect,
                 getterB = Bound (JFun ''getLineItemValues'') [JStr ''tags'', JNum 1],
                 setterB = Bound (JFun ''setLineItemValues'') [JStr ''tags'', JNum 1] \<rparr>],
        sampleHandle)"
proof -
  have a: "''getLineItemValues'' \<notin> set functionsToPassThru"
    by (simp add: functionsToPassThru_def)
  have g: "getLineItemFieldR sampleHandle ''item'' ''tags'' = Inr (JField ''multiselect'')"
    by (simp add: sampleHandle_def)
  have n: "objRead sampleLib sampleObj ''getLineItemValues'' sampleHandle = PVal Undefined"
    by (simp add: objRead_def sampleObj_def)
  have 1: "rowFieldStep sampleLib False sampleObj ''item'' (JNum 1) Map.empty ''tags'' sampleHandle
             = (Inl TypeError, sampleHandle)"
    using g n
    by (simp add: rowFieldStep_def objRead_exposes sampleObj_exposes callValue_def
          sublistDescriptorFor_def sublistFieldDescriptors_def asDesc_def boundDescriptor_def
          bindOn_def)
  have c: "callValue (objRead sampleLib sampleObj ''getLineItemCount'' sampleHandle) [JStr ''item''] sampleHandle
             = (Inr (JNum 2), sampleHandle)"
    by (simp add: objRead_exposes sampleObj_exposes callValue_def sampleHandle_def)
  have d: "defineValue sampleObj ''item'' (PList [] [''tags'']) None
             = Inr (sampleObj(''item'' \<mapsto> DataProp (PList [] [''tags'']) False False))"
    by (simp add: defineValue_def sampleObj_def)
  have x: "exposes (sampleObj(''item'' \<mapsto> DataProp (PList [] [''tags'']) False False)) ''getLineItemField''"
    by (simp add: exposes_other sampleObj_exposes)
  have n2: "objRead sampleLib (sampleObj(''item'' \<mapsto> DataProp (PList [] [''tags'']) False False))
               ''getLineItemValues'' sampleHandle = PVal Undefined"
    by (simp add: objRead_def sampleObj_def)
  have r: "rowFieldStep sampleLib False (sampleObj(''item'' \<mapsto> DataProp (PList [] [''tags'']) False False))
              ''item'' (JNum 1) Map.empty ''tags'' sampleHandle = (Inl TypeError, sampleHandle)"
    using g n2 x
    by (simp add: rowFieldStep_def objRead_exposes callValue_def
          sublistDescriptorFor_def sublistFieldDescriptors_def asDesc_def boundDescriptor_def
          bindOn_def)
  have u: "[1..2] = [1, 2::int]" by (simp add: upto.simps)
  have 2: "withSublist sampleLib False ''item'' [''tags''] sampleObj sampleWorld
             = Some (Inl TypeError, sampleWorld)"
    by (simp add: withSublist_def sampleWorld_def c d parseIntJS_def lineNumbers_def u
          addNewLineItem_def r)
  let ?o = "sampleObj(''getLineItemValues'' \<mapsto> DataProp (PVal (JFun ''getLineItemValues'')) True True,
                  ''setLineItemValues'' \<mapsto> DataProp (PVal (JFun ''setLineItemValues'')) True True)"
  have e: "exposes ?o ''getLineItemField''" "exposes ?o ''getLineItemValues''" "exposes ?o ''setLineItemValues''"
    by (simp_all add: exposes_def sampleObj_def)
  have 3: "rowFieldStep sampleLib False ?o ''item'' (JNum 1) Map.empty ''tags'' sampleHandle
     = (Inr [''tags'' \<mapsto> RowAccessor \<lparr> conv = MultiSelect,
                 getterB = Bound (JFun ''getLineItemValues'') [JStr ''tags'', JNum 1],
                 setterB = Bound (JFun ''setLineItemValues'') [JStr ''tags'', JNum 1] \<rparr>],
        sampleHandle)"
    using g e
    by (simp add: rowFieldStep_def objRead_exposes callValue_def
          sublistDescriptorFor_def sublistFieldDescriptors_def asDesc_def boundDescriptor_def
          bindOn_def defineRowProperty_def)
  from a g 1 2 3 show ?thesis by blast
qed

end
